theory Spec2Isabelle
  imports Complex_Main "HOL-Library.Sublist"
begin

section \<open>MergeGeometryBlocks: merging two geometry blocks by index\<close>

text \<open>
  A shallow embedding of \<^verbatim>\<open>dask_geomodeling/geometry/merge.py\<close>. The class
  \<^verbatim>\<open>MergeGeometryBlocks\<close> has a validating constructor, the schema property
  \<^verbatim>\<open>columns\<close> and the static method \<^verbatim>\<open>process\<close> that combines the responses of
  the two upstream blocks. Exceptions are values of the type \<open>error\<close>; a function that can
  raise returns \<open>error + 'a\<close>.
\<close>

subsection \<open>Python values and errors\<close>

text \<open>The elements a tuple handed over as \<^verbatim>\<open>suffixes\<close> can hold: strings and other objects.\<close>

datatype pyobj = PStr string | PInt int | PNone

datatype error =
    TypeError string
  | KeyError string
  | IndexError string
  | ValueError string
  | AttributeError string

fun isinstance_str :: "pyobj \<Rightarrow> bool" where
  "isinstance_str (PStr s) = True"
| "isinstance_str (PInt i) = False"
| "isinstance_str PNone = False"

text \<open>\<^verbatim>\<open>xs[i]\<close> on a tuple, for the literal indices 0 and 1 of the source.\<close>

definition getitem :: "'a list \<Rightarrow> nat \<Rightarrow> error + 'a" where
  "getitem xs i =
     (if i < length xs then Inr (xs ! i) else Inl (IndexError ''tuple index out of range''))"

text \<open>\<^verbatim>\<open>col + suffix\<close> with \<^verbatim>\<open>col\<close> a string.\<close>

fun str_add :: "string \<Rightarrow> pyobj \<Rightarrow> error + string" where
  "str_add s (PStr t) = Inr (s @ t)"
| "str_add s (PInt i) = Inl (TypeError ''can only concatenate str to str'')"
| "str_add s PNone = Inl (TypeError ''can only concatenate str to str'')"

text \<open>
  The text Python's \<^verbatim>\<open>str\<close> gives for a tuple of plain strings (no quote, backslash or
  control character in them, as in the join kinds): each element in single quotes,
  separated by a comma and a blank, a trailing comma for a tuple of one element.
\<close>

definition sq :: char where
  "sq = CHR 0x27"

definition repr_str :: "string \<Rightarrow> string" where
  "repr_str s = [sq] @ s @ [sq]"

fun join :: "string \<Rightarrow> string list \<Rightarrow> string" where
  "join sep [] = []"
| "join sep [x] = x"
| "join sep (x # y # ys) = x @ sep @ join sep (y # ys)"

definition str_tuple :: "string list \<Rightarrow> string" where
  "str_tuple xs =
     ''('' @ join '', '' (map repr_str xs) @ (if length xs = 1 then '','' else []) @ '')''"

subsection \<open>The constructor\<close>

text \<open>
  An argument given as \<^verbatim>\<open>left\<close> or \<^verbatim>\<open>right\<close> is either a GeometryBlock, which declares
  a set of column names, or an object of another class, of which the constructor only
  prints the type.
\<close>

datatype source = GeometryBlock "string set" | NotGeometryBlock string

fun isinstance_GeometryBlock :: "source \<Rightarrow> bool" where
  "isinstance_GeometryBlock (GeometryBlock cols) = True"
| "isinstance_GeometryBlock (NotGeometryBlock ty) = False"

fun type_str :: "source \<Rightarrow> string" where
  "type_str (GeometryBlock cols) = ''<class 'dask_geomodeling.geometry.base.GeometryBlock'>''"
| "type_str (NotGeometryBlock ty) = ty"

fun source_columns :: "source \<Rightarrow> error + string set" where
  "source_columns (GeometryBlock cols) = Inr cols"
| "source_columns (NotGeometryBlock ty) = Inl (AttributeError ''columns'')"

definition allow_how_joins :: "string list" where
  "allow_how_joins = [''left'', ''right'', ''outer'', ''inner'']"

text \<open>The stored arguments \<^verbatim>\<open>self.args\<close>, read by the four properties of the class.\<close>

record merge_node =
  left :: source
  right :: source
  how :: string
  suffixes :: "pyobj list"

definition not_allowed :: "string \<Rightarrow> string" where
  "not_allowed ty = [sq] @ ty @ [sq] @ '' object is not allowed''"

definition not_an_operation :: "string \<Rightarrow> string" where
  "not_an_operation h =
     [sq] @ h @ [sq] @ '' is not part of the list of operations: '' @ str_tuple allow_how_joins"

text \<open>
  \<^verbatim>\<open>__init__\<close>. The four checks run in the order of the source; the last one is an
  \<^verbatim>\<open>or\<close> of three tests, evaluated from left to right, so both elements are read
  before the length is compared.
\<close>

definition init :: "source \<Rightarrow> source \<Rightarrow> string \<Rightarrow> pyobj list \<Rightarrow> error + merge_node" where
  "init l r h sfx =
     (if \<not> isinstance_GeometryBlock l then Inl (TypeError (not_allowed (type_str l)))
      else if \<not> isinstance_GeometryBlock r then Inl (TypeError (not_allowed (type_str r)))
      else if h \<notin> set allow_how_joins then Inl (KeyError (not_an_operation h))
      else
        (case getitem sfx 0 of
           Inl e \<Rightarrow> Inl e
         | Inr s0 \<Rightarrow>
             if \<not> isinstance_str s0 then Inl (TypeError (not_allowed ''<class 'tuple'>''))
             else
               (case getitem sfx 1 of
                  Inl e \<Rightarrow> Inl e
                | Inr s1 \<Rightarrow>
                    if \<not> isinstance_str s1 then Inl (TypeError (not_allowed ''<class 'tuple'>''))
                    else if length sfx \<noteq> 2 then Inl (TypeError (not_allowed ''<class 'tuple'>''))
                    else Inr \<lparr>left = l, right = r, how = h, suffixes = sfx\<rparr>)))"

text \<open>The defaults of the constructor's signature.\<close>

definition default_how :: string where
  "default_how = ''inner''"

definition default_suffixes :: "pyobj list" where
  "default_suffixes = [PStr [], PStr ''_right'']"

subsection \<open>The schema property\<close>

text \<open>
  The loop \<^verbatim>\<open>for col in overlap: result |= {col + suffixes[0], col + suffixes[1]}\<close>.
  Python iterates over a set in an order of its own; the list \<open>order\<close> is that order.
\<close>

fun columns_loop :: "merge_node \<Rightarrow> string list \<Rightarrow> string set \<Rightarrow> error + string set" where
  "columns_loop self [] result = Inr result"
| "columns_loop self (col # cols) result =
     (case getitem (suffixes self) 0 of
        Inl e \<Rightarrow> Inl e
      | Inr s0 \<Rightarrow>
          (case str_add col s0 of
             Inl e \<Rightarrow> Inl e
           | Inr c0 \<Rightarrow>
               (case getitem (suffixes self) 1 of
                  Inl e \<Rightarrow> Inl e
                | Inr s1 \<Rightarrow>
                    (case str_add col s1 of
                       Inl e \<Rightarrow> Inl e
                     | Inr c1 \<Rightarrow> columns_loop self cols (result \<union> {c0, c1})))))"

text \<open>
  \<^verbatim>\<open>columns\<close>: \<open>order\<close> lists the elements of \<^verbatim>\<open>left & right\<close> as the loop meets them.
\<close>

definition columns :: "merge_node \<Rightarrow> string list \<Rightarrow> error + string set" where
  "columns self order =
     (case source_columns (left self) of
        Inl e \<Rightarrow> Inl e
      | Inr l \<Rightarrow>
          (case source_columns (right self) of
             Inl e \<Rightarrow> Inl e
           | Inr r \<Rightarrow> columns_loop self order ((l - r) \<union> (r - l))))"

text \<open>The schema as the specification words it, to compare with the property.\<close>

definition spec_columns :: "string set \<Rightarrow> string set \<Rightarrow> string \<Rightarrow> string \<Rightarrow> string set" where
  "spec_columns left_cols right_cols s0 s1 =
     ((left_cols - right_cols) \<union> (right_cols - left_cols))
       \<union> (\<Union>name \<in> left_cols \<inter> right_cols. {name @ s0, name @ s1})"

subsection \<open>Requests, responses and the external engines\<close>

text \<open>
  A bounding box is the tuple \<^verbatim>\<open>(minx, miny, maxx, maxy)\<close>. The value under the key
  \<^verbatim>\<open>extent\<close> is such a tuple or \<^verbatim>\<open>None\<close>; only \<^verbatim>\<open>None\<close> is falsy among them.
\<close>

type_synonym bbox = "real \<times> real \<times> real \<times> real"

text \<open>
  A response is a dictionary. Every response carries the key \<^verbatim>\<open>projection\<close>
  (\<^verbatim>\<open>process\<close> reads it before it looks at the mode), so it is a plain field. The
  keys \<^verbatim>\<open>features\<close> and \<^verbatim>\<open>extent\<close> depend on the mode of the request: \<open>None\<close>
  means that the key is missing, and reading it raises KeyError.
\<close>

record ('t, 'p) response =
  features :: "'t option"
  extent :: "bbox option option"
  projection :: 'p

text \<open>The dictionary \<^verbatim>\<open>process_kwargs\<close> that \<^verbatim>\<open>get_sources_and_requests\<close> builds.\<close>

record kwargs =
  kw_how :: string
  kw_suffixes :: "pyobj list"
  kw_mode :: string

definition process_kwargs :: "merge_node \<Rightarrow> string \<Rightarrow> kwargs" where
  "process_kwargs self request_mode =
     \<lparr>kw_how = how self, kw_suffixes = suffixes self, kw_mode = request_mode\<rparr>"

text \<open>
  \<^verbatim>\<open>process\<close> calls into two libraries that are not part of the repository:
  \<^verbatim>\<open>pandas.merge\<close> on the feature tables, and \<^verbatim>\<open>shapely\<close>'s \<^verbatim>\<open>box\<close>,
  \<^verbatim>\<open>intersection\<close>, \<^verbatim>\<open>union\<close>, \<^verbatim>\<open>is_empty\<close> and \<^verbatim>\<open>bounds\<close> on geometries.
  They are parameters of the model: \<open>'t\<close> is the type of tables, \<open>'g\<close> the type of
  geometries. \<^verbatim>\<open>bounds\<close> gives no box for an empty geometry.
\<close>

record ('t, 'g) engine =
  pd_merge :: "'t \<Rightarrow> 't \<Rightarrow> string \<Rightarrow> pyobj list \<Rightarrow> error + 't"
  shp_box :: "bbox \<Rightarrow> 'g"
  shp_intersection :: "'g \<Rightarrow> 'g \<Rightarrow> 'g"
  shp_union :: "'g \<Rightarrow> 'g \<Rightarrow> 'g"
  shp_is_empty :: "'g \<Rightarrow> bool"
  shp_bounds :: "'g \<Rightarrow> bbox option"

definition getkey :: "string \<Rightarrow> 'a option \<Rightarrow> error + 'a" where
  "getkey k v = (case v of None \<Rightarrow> Inl (KeyError k) | Some x \<Rightarrow> Inr x)"

subsection \<open>Combining two responses\<close>

text \<open>
  The branch \<^verbatim>\<open>how == "inner"\<close> of the extent mode. The test
  \<^verbatim>\<open>left["extent"] and right["extent"]\<close> reads the right extent only when the left
  one is truthy.
\<close>

definition extent_inner ::
  "('t, 'g) engine \<Rightarrow> ('t, 'p) response \<Rightarrow> ('t, 'p) response \<Rightarrow> error + ('t, 'p) response option"
where
  "extent_inner E l r =
     (case getkey ''extent'' (extent l) of
        Inl e \<Rightarrow> Inl e
      | Inr None \<Rightarrow> Inr (Some \<lparr>features = None, extent = Some None, projection = projection l\<rparr>)
      | Inr (Some lb) \<Rightarrow>
          (case getkey ''extent'' (extent r) of
             Inl e \<Rightarrow> Inl e
           | Inr None \<Rightarrow>
               Inr (Some \<lparr>features = None, extent = Some None, projection = projection l\<rparr>)
           | Inr (Some rb) \<Rightarrow>
               (let left_shape = shp_box E lb;
                    right_shape = shp_box E rb;
                    ext = shp_intersection E left_shape right_shape;
                    values = (if \<not> shp_is_empty E ext then shp_bounds E ext else None)
                in Inr (Some \<lparr>features = None, extent = Some values,
                                projection = projection l\<rparr>))))"

text \<open>
  The branch \<^verbatim>\<open>how == "outer"\<close>: an \<^verbatim>\<open>if\<close> with two \<^verbatim>\<open>elif\<close>s, each reading the
  extents again.
\<close>

definition extent_outer ::
  "('t, 'g) engine \<Rightarrow> ('t, 'p) response \<Rightarrow> ('t, 'p) response \<Rightarrow> error + ('t, 'p) response option"
where
  "extent_outer E l r =
     (case getkey ''extent'' (extent l) of
        Inl e \<Rightarrow> Inl e
      | Inr (Some lb) \<Rightarrow>
          (case getkey ''extent'' (extent r) of
             Inl e \<Rightarrow> Inl e
           | Inr (Some rb) \<Rightarrow>
               (let left_shape = shp_box E lb;
                    right_shape = shp_box E rb;
                    values = shp_bounds E (shp_union E left_shape right_shape)
                in Inr (Some \<lparr>features = None, extent = Some values,
                                projection = projection l\<rparr>))
           | Inr None \<Rightarrow>
               Inr (Some \<lparr>features = None, extent = Some (Some lb), projection = projection l\<rparr>))
      | Inr None \<Rightarrow>
          (case getkey ''extent'' (extent r) of
             Inl e \<Rightarrow> Inl e
           | Inr (Some rb) \<Rightarrow>
               Inr (Some \<lparr>features = None, extent = Some (Some rb), projection = projection l\<rparr>)
           | Inr None \<Rightarrow>
               Inr (Some \<lparr>features = None, extent = Some None, projection = projection l\<rparr>)))"

text \<open>
  \<^verbatim>\<open>process\<close>. The result \<open>Inr None\<close> is the \<^verbatim>\<open>None\<close> Python returns when the
  function ends without a \<^verbatim>\<open>return\<close>.
\<close>

definition process ::
  "('t, 'g) engine \<Rightarrow> ('t, 'p) response \<Rightarrow> ('t, 'p) response \<Rightarrow> kwargs
     \<Rightarrow> error + ('t, 'p) response option"
where
  "process E l r kw =
     (let mode = kw_mode kw; h = kw_how kw in
      if mode = ''intersects'' \<or> mode = ''centroid'' then
        (case getkey ''features'' (features l) of
           Inl e \<Rightarrow> Inl e
         | Inr lf \<Rightarrow>
             (case getkey ''features'' (features r) of
                Inl e \<Rightarrow> Inl e
              | Inr rf \<Rightarrow>
                  (case pd_merge E lf rf (kw_how kw) (kw_suffixes kw) of
                     Inl e \<Rightarrow> Inl e
                   | Inr merged \<Rightarrow>
                       Inr (Some \<lparr>features = Some merged, extent = None,
                                  projection = projection l\<rparr>))))
      else if mode = ''extent'' then
        (if h = ''left'' then Inr (Some l)
         else if h = ''right'' then Inr (Some r)
         else if h = ''inner'' then extent_inner E l r
         else if h = ''outer'' then extent_outer E l r
         else Inr None)
      else Inr None)"

subsection \<open>The table engine\<close>

text \<open>
  Modelled from the spec: the merge-by-index primitive of the table engine
  (\<^verbatim>\<open>pandas.merge\<close> with \<^verbatim>\<open>left_index=True, right_index=True\<close>), which is not part of
  the repository. A table has named columns and rows keyed by an index value; a cell is
  \<open>None\<close> where the engine fills in its null marker. Rows are matched when their index
  values are equal. A column name found on both sides gets the suffix of its side; the
  engine refuses such names when both suffixes are empty. The specification knows
  suffixes only as a pair of strings.
\<close>

record ('i, 'v) dataframe =
  df_columns :: "string list"
  df_rows :: "('i \<times> 'v option list) list"

definition index_set :: "('i, 'v) dataframe \<Rightarrow> 'i set" where
  "index_set t = fst ` set (df_rows t)"

definition matches :: "('i \<times> 'c) list \<Rightarrow> 'i \<Rightarrow> 'c list" where
  "matches rows k = map snd (filter (\<lambda>row. fst row = k) rows)"

definition or_nulls :: "nat \<Rightarrow> 'v option list list \<Rightarrow> 'v option list list" where
  "or_nulls n ms = (if ms = [] then [replicate n None] else ms)"

definition join_rows ::
  "'i \<Rightarrow> 'v option list list \<Rightarrow> 'v option list list \<Rightarrow> ('i \<times> 'v option list) list"
where
  "join_rows k ls rs = concat (map (\<lambda>lrow. map (\<lambda>rrow. (k, lrow @ rrow)) rs) ls)"

definition rename_overlap :: "string list \<Rightarrow> string \<Rightarrow> string \<Rightarrow> string" where
  "rename_overlap overlap sfx c = (if c \<in> set overlap then c @ sfx else c)"

definition left_join ::
  "('i, 'v) dataframe \<Rightarrow> ('i, 'v) dataframe \<Rightarrow> ('i \<times> 'v option list) list"
where
  "left_join lt rt =
     concat (map (\<lambda>(k, lrow).
       join_rows k [lrow] (or_nulls (length (df_columns rt)) (matches (df_rows rt) k)))
       (df_rows lt))"

definition right_join ::
  "('i, 'v) dataframe \<Rightarrow> ('i, 'v) dataframe \<Rightarrow> ('i \<times> 'v option list) list"
where
  "right_join lt rt =
     concat (map (\<lambda>(k, rrow).
       join_rows k (or_nulls (length (df_columns lt)) (matches (df_rows lt) k)) [rrow])
       (df_rows rt))"

definition inner_join ::
  "('i, 'v) dataframe \<Rightarrow> ('i, 'v) dataframe \<Rightarrow> ('i \<times> 'v option list) list"
where
  "inner_join lt rt =
     concat (map (\<lambda>(k, lrow). join_rows k [lrow] (matches (df_rows rt) k)) (df_rows lt))"

definition outer_join ::
  "('i::linorder, 'v) dataframe \<Rightarrow> ('i, 'v) dataframe \<Rightarrow> ('i \<times> 'v option list) list"
where
  "outer_join lt rt =
     concat (map (\<lambda>k.
       join_rows k (or_nulls (length (df_columns lt)) (matches (df_rows lt) k))
                   (or_nulls (length (df_columns rt)) (matches (df_rows rt) k)))
       (sort (remdups (map fst (df_rows lt) @ map fst (df_rows rt)))))"

definition merge_by_index ::
  "('i::linorder, 'v) dataframe \<Rightarrow> ('i, 'v) dataframe \<Rightarrow> string \<Rightarrow> pyobj list
     \<Rightarrow> error + ('i, 'v) dataframe"
where
  "merge_by_index lt rt h sfx =
     (case sfx of
        [PStr lsuffix, PStr rsuffix] \<Rightarrow>
          (let overlap = filter (\<lambda>c. c \<in> set (df_columns rt)) (df_columns lt);
               cols = map (rename_overlap overlap lsuffix) (df_columns lt)
                        @ map (rename_overlap overlap rsuffix) (df_columns rt)
           in if overlap \<noteq> [] \<and> lsuffix = [] \<and> rsuffix = []
              then Inl (ValueError ''columns overlap but no suffix specified'')
              else if h = ''left'' then Inr \<lparr>df_columns = cols, df_rows = left_join lt rt\<rparr>
              else if h = ''right'' then Inr \<lparr>df_columns = cols, df_rows = right_join lt rt\<rparr>
              else if h = ''inner'' then Inr \<lparr>df_columns = cols, df_rows = inner_join lt rt\<rparr>
              else if h = ''outer'' then Inr \<lparr>df_columns = cols, df_rows = outer_join lt rt\<rparr>
              else Inl (ValueError ''do not recognize join method''))
      | _ \<Rightarrow> Inl (ValueError ''suffixes''))"

subsection \<open>The geometry engine\<close>

text \<open>Boxes as sets of points: the closed rectangle and the points strictly inside it.\<close>

fun rect_points :: "bbox \<Rightarrow> (real \<times> real) set" where
  "rect_points (x0, y0, x1, y1) = {(x, y). x0 \<le> x \<and> x \<le> x1 \<and> y0 \<le> y \<and> y \<le> y1}"


fun rect_nonempty :: "bbox \<Rightarrow> bool" where
  "rect_nonempty (x0, y0, x1, y1) = (x0 \<le> x1 \<and> y0 \<le> y1)"

fun rect_inter :: "bbox \<Rightarrow> bbox \<Rightarrow> bbox" where
  "rect_inter (a0, b0, a1, b1) (c0, d0, c1, d1) = (max a0 c0, max b0 d0, min a1 c1, min b1 d1)"

fun rect_hull :: "bbox \<Rightarrow> bbox \<Rightarrow> bbox" where
  "rect_hull (a0, b0, a1, b1) (c0, d0, c1, d1) = (min a0 c0, min b0 d0, max a1 c1, max b1 d1)"

text \<open>A box with positive width and height, and the area of a box.\<close>

fun proper_box :: "bbox \<Rightarrow> bool" where
  "proper_box (minx, miny, maxx, maxy) = (minx < maxx \<and> miny < maxy)"


text \<open>The corners of a box in order, whichever way round they are given.\<close>

fun normalize :: "bbox \<Rightarrow> bbox" where
  "normalize (minx, miny, maxx, maxy) =
     (min minx maxx, min miny maxy, max minx maxx, max miny maxy)"

text \<open>
  Modelled from the spec: the geometry engine (\<^verbatim>\<open>shapely\<close>), which is not part of the
  repository, with its primitives box, intersection, union, is-empty and bounds. A
  geometry is a list of pieces. \<open>Area b\<close> is the polygon that \<^verbatim>\<open>box\<close> builds on the
  corners \<open>b\<close>; it stands for the area it encloses, so a polygon without width or
  without height is a geometry that is not empty and has bounds, but it has no area
  and takes no part in an intersection or a union. \<open>Thin b\<close> is a segment or a point,
  which is what an intersection leaves of two polygons that only touch. \<open>points\<close> is
  the set of points a geometry stands for; intersection and union are those of the
  point sets. The bounds of the empty geometry are no box.
\<close>

datatype piece = Area bbox | Thin bbox

type_synonym geometry = "piece list"

fun piece_box :: "piece \<Rightarrow> bbox" where
  "piece_box (Area b) = b"
| "piece_box (Thin b) = b"

fun takes_part :: "piece \<Rightarrow> bool" where
  "takes_part (Area b) = proper_box b"
| "takes_part (Thin b) = rect_nonempty b"

definition piece_points :: "piece \<Rightarrow> (real \<times> real) set" where
  "piece_points p = (if takes_part p then rect_points (piece_box p) else {})"

definition points :: "geometry \<Rightarrow> (real \<times> real) set" where
  "points g = (\<Union>p \<in> set g. piece_points p)"

definition as_piece :: "bbox \<Rightarrow> piece" where
  "as_piece b = (if proper_box b then Area b else Thin b)"

definition piece_inter :: "piece \<Rightarrow> piece \<Rightarrow> piece list" where
  "piece_inter p q =
     (let b = rect_inter (piece_box p) (piece_box q)
      in if takes_part p \<and> takes_part q \<and> rect_nonempty b then [as_piece b] else [])"

definition box :: "bbox \<Rightarrow> geometry" where
  "box b = [Area (normalize b)]"

definition intersection :: "geometry \<Rightarrow> geometry \<Rightarrow> geometry" where
  "intersection g h = concat (map (\<lambda>p. concat (map (piece_inter p) h)) g)"

definition union_geom :: "geometry \<Rightarrow> geometry \<Rightarrow> geometry" where
  "union_geom g h = filter takes_part (g @ h)"

definition is_empty :: "geometry \<Rightarrow> bool" where
  "is_empty g = (g = [])"

definition bounds :: "geometry \<Rightarrow> bbox option" where
  "bounds g =
     (case map piece_box g of
        [] \<Rightarrow> None
      | b # bs \<Rightarrow> Some (foldl rect_hull b bs))"

text \<open>The two libraries together, as \<^verbatim>\<open>process\<close> uses them.\<close>

definition libraries :: "(('i::linorder, 'v) dataframe, geometry) engine" where
  "libraries =
     \<lparr>pd_merge = merge_by_index, shp_box = box, shp_intersection = intersection,
      shp_union = union_geom, shp_is_empty = is_empty, shp_bounds = bounds\<rparr>"

text \<open>The index set the specification gives for each join kind.\<close>

definition spec_index_set :: "string \<Rightarrow> 'i set \<Rightarrow> 'i set \<Rightarrow> 'i set" where
  "spec_index_set h L R =
     (if h = ''left'' then L
      else if h = ''right'' then R
      else if h = ''inner'' then L \<inter> R
      else L \<union> R)"

section \<open>Properties of the constructor\<close>

lemma init_two_strings:
  "h \<in> set allow_how_joins \<Longrightarrow>
   init (GeometryBlock lc) (GeometryBlock rc) h [PStr s0, PStr s1] =
     Inr \<lparr>left = GeometryBlock lc, right = GeometryBlock rc, how = h,
          suffixes = [PStr s0, PStr s1]\<rparr>"
  by (simp add: init_def getitem_def)

lemma init_three_strings:
  "h \<in> set allow_how_joins \<Longrightarrow>
   init (GeometryBlock lc) (GeometryBlock rc) h [PStr s0, PStr s1, PStr s2] =
     Inl (TypeError (not_allowed ''<class 'tuple'>''))"
  by (simp add: init_def getitem_def)

lemma init_empty_tuple:
  "h \<in> set allow_how_joins \<Longrightarrow>
   init (GeometryBlock lc) (GeometryBlock rc) h [] = Inl (IndexError ''tuple index out of range'')"
  by (simp add: init_def getitem_def)

text \<open>
  C2: a \<^verbatim>\<open>suffixes\<close> argument that is not a pair of strings is to be refused with a
  TypeError. For the tuple \<^verbatim>\<open>("a",)\<close> the constructor reads \<^verbatim>\<open>suffixes[1]\<close> before
  it compares the length, and what comes out is the IndexError of that read.
\<close>

theorem init_one_suffix:
  "init (GeometryBlock {}) (GeometryBlock {}) ''inner'' [PStr ''a'']
     = Inl (IndexError ''tuple index out of range'')"
  by (simp add: init_def allow_how_joins_def getitem_def)

lemma sublist_repr_str: "sublist k (repr_str k)"
  unfolding repr_str_def by (rule sublist_appendI)

lemma sublist_join:
  "k \<in> set xs \<Longrightarrow> sublist k (join sep (map repr_str xs))"
proof (induction sep xs rule: join.induct)
  case (1 sep)
  then show ?case by simp
next
  case (2 sep x)
  then show ?case by (simp add: sublist_repr_str)
next
  case (3 sep x y ys)
  show ?case
  proof (cases "k = x")
    case True
    have "sublist k (repr_str k @ (sep @ join sep (map repr_str (y # ys))))"
      by (simp only: sublist_append sublist_repr_str simp_thms)
    then show ?thesis using True by simp
  next
    case False
    with 3 have "sublist k (join sep (map repr_str (y # ys)))" by simp
    then have "sublist k ((repr_str x @ sep) @ join sep (map repr_str (y # ys)))"
      by (simp only: sublist_append simp_thms)
    then show ?thesis by simp
  qed
qed

lemma sublist_str_tuple: "k \<in> set xs \<Longrightarrow> sublist k (str_tuple xs)"
proof -
  assume "k \<in> set xs"
  then have "sublist k (join '', '' (map repr_str xs))" by (rule sublist_join)
  then show ?thesis unfolding str_tuple_def
    by (simp only: sublist_append simp_thms)
qed

lemma sublist_not_an_operation:
  "k \<in> set allow_how_joins \<Longrightarrow> sublist k (not_an_operation h)"
  unfolding not_an_operation_def
  by (simp only: sublist_append sublist_str_tuple simp_thms)

text \<open>
  C7: whatever else is passed, a join kind outside the four allowed ones makes the
  constructor raise; no request is involved, the constructor is a function of its
  arguments alone. When \<^verbatim>\<open>left\<close> and \<^verbatim>\<open>right\<close> are geometry blocks, the error is the
  KeyError of the join kind, and each of the four allowed kinds occurs in its message.
\<close>

theorem init_rejects_unknown_how:
  assumes "h \<notin> set allow_how_joins"
  shows "(\<exists>e. init l r h sfx = Inl e) \<and>
         (isinstance_GeometryBlock l \<and> isinstance_GeometryBlock r \<longrightarrow>
            init l r h sfx = Inl (KeyError (not_an_operation h)) \<and>
            (\<forall>k \<in> set allow_how_joins. sublist k (not_an_operation h)))"
  using assms sublist_not_an_operation by (auto simp: init_def)

theorem init_rejects_unknown_how_witness:
  "''bogus'' \<notin> set allow_how_joins \<and>
   init (GeometryBlock {}) (GeometryBlock {}) ''bogus'' default_suffixes =
     Inl (KeyError (not_an_operation ''bogus'')) \<and>
   sublist ''outer'' (not_an_operation ''bogus'')"
proof -
  have h: "''bogus'' \<notin> set allow_how_joins" by (simp add: allow_how_joins_def)
  have k: "''outer'' \<in> set allow_how_joins" by (simp add: allow_how_joins_def)
  from init_rejects_unknown_how [OF h, of "GeometryBlock {}" "GeometryBlock {}" default_suffixes] k h
  show ?thesis by simp
qed

section \<open>Properties of the schema\<close>

lemma columns_loop_ok:
  "suffixes self = [PStr s0, PStr s1] \<Longrightarrow>
   columns_loop self order result =
     Inr (result \<union> (\<Union>name \<in> set order. {name @ s0, name @ s1}))"
  by (induction order arbitrary: result) (auto simp: getitem_def)

lemma columns_node:
  "set order = lc \<inter> rc \<Longrightarrow>
   columns \<lparr>left = GeometryBlock lc, right = GeometryBlock rc, how = h,
            suffixes = [PStr s0, PStr s1]\<rparr> order
     = Inr (spec_columns lc rc s0 s1)"
  by (simp add: columns_def columns_loop_ok spec_columns_def)

lemma spec_columns_swap: "spec_columns lc rc s0 s1 = spec_columns rc lc s1 s0"
  by (auto simp: spec_columns_def)

text \<open>
  C4: for a node built from two blocks with the column sets \<open>left_cols\<close> and
  \<open>right_cols\<close> and a pair of strings as suffixes, \<^verbatim>\<open>columns\<close> is the symmetric
  difference of the two sets together with both suffixed names of every shared column,
  in whatever order the loop meets the shared columns; the node of any other join kind
  has the same columns.
\<close>

theorem columns_is_spec_columns:
  assumes "h \<in> set allow_how_joins" and "set order = left_cols \<inter> right_cols"
  shows "\<exists>n. init (GeometryBlock left_cols) (GeometryBlock right_cols) h [PStr s0, PStr s1] = Inr n \<and>
             columns n order = Inr (spec_columns left_cols right_cols s0 s1) \<and>
             (\<forall>h' order'. h' \<in> set allow_how_joins \<and> set order' = left_cols \<inter> right_cols \<longrightarrow>
                (\<exists>n'. init (GeometryBlock left_cols) (GeometryBlock right_cols) h'
                         [PStr s0, PStr s1] = Inr n' \<and>
                      columns n' order' = columns n order))"
  using assms by (simp add: init_two_strings columns_node)

theorem columns_is_spec_columns_witness:
  "''inner'' \<in> set allow_how_joins \<and> set [''b''] = {''a'', ''b''} \<inter> {''b'', ''c''} \<and>
   (\<exists>n. init (GeometryBlock {''a'', ''b''}) (GeometryBlock {''b'', ''c''}) ''inner''
           [PStr [], PStr ''_right''] = Inr n \<and>
        columns n [''b''] = Inr {''a'', ''c'', ''b'', ''b_right''})"
proof -
  have h: "''inner'' \<in> set allow_how_joins" by (simp add: allow_how_joins_def)
  have o: "set [''b''] = {''a'', ''b''} \<inter> {''b'', ''c''}" by auto
  have s: "spec_columns {''a'', ''b''} {''b'', ''c''} [] ''_right'' = {''a'', ''c'', ''b'', ''b_right''}"
    by (auto simp: spec_columns_def)
  from columns_is_spec_columns [OF h o, of "[]" "''_right''"] h o s
  show ?thesis by auto
qed

text \<open>
  C8: the node built from \<open>(left, right)\<close> with the suffixes \<open>(s0, s1)\<close> and the node
  built from \<open>(right, left)\<close> with the suffixes \<open>(s1, s0)\<close> have the same set of
  columns.
\<close>

theorem columns_swap:
  assumes "h \<in> set allow_how_joins"
    and "set order1 = left_cols \<inter> right_cols" and "set order2 = right_cols \<inter> left_cols"
  shows "\<exists>n1 n2 cols.
           init (GeometryBlock left_cols) (GeometryBlock right_cols) h [PStr s0, PStr s1] = Inr n1 \<and>
           init (GeometryBlock right_cols) (GeometryBlock left_cols) h [PStr s1, PStr s0] = Inr n2 \<and>
           columns n1 order1 = Inr cols \<and> columns n2 order2 = Inr cols"
  using assms by (simp add: init_two_strings columns_node spec_columns_swap)

theorem columns_swap_witness:
  "''outer'' \<in> set allow_how_joins \<and>
   set [''b''] = {''a'', ''b''} \<inter> {''b'', ''c''} \<and> set [''b''] = {''b'', ''c''} \<inter> {''a'', ''b''} \<and>
   (\<exists>n1 n2 cols.
      init (GeometryBlock {''a'', ''b''}) (GeometryBlock {''b'', ''c''}) ''outer''
        [PStr ''_x'', PStr ''_y''] = Inr n1 \<and>
      init (GeometryBlock {''b'', ''c''}) (GeometryBlock {''a'', ''b''}) ''outer''
        [PStr ''_y'', PStr ''_x''] = Inr n2 \<and>
      columns n1 [''b''] = Inr cols \<and> columns n2 [''b''] = Inr cols)"
proof -
  have h: "''outer'' \<in> set allow_how_joins" by (simp add: allow_how_joins_def)
  have o1: "set [''b''] = {''a'', ''b''} \<inter> {''b'', ''c''}" by auto
  have o2: "set [''b''] = {''b'', ''c''} \<inter> {''a'', ''b''}" by auto
  from columns_swap [OF h o1 o2, of "''_x''" "''_y''"] h o1 o2
  show ?thesis by blast
qed

section \<open>Properties of process\<close>

subsection \<open>The branches\<close>

lemma extent_inner_projection:
  "extent_inner E l r = Inr (Some res) \<Longrightarrow> projection res = projection l"
  unfolding extent_inner_def getkey_def Let_def
  by (cases "extent l"; cases "extent r"; cases "the (extent l)"; cases "the (extent r)") auto

lemma extent_outer_projection:
  "extent_outer E l r = Inr (Some res) \<Longrightarrow> projection res = projection l"
  unfolding extent_outer_def getkey_def Let_def
  by (cases "extent l"; cases "extent r"; cases "the (extent l)"; cases "the (extent r)") auto

lemma features_branch_projection:
  assumes "kw_mode kw = ''intersects'' \<or> kw_mode kw = ''centroid''"
    and "process E l r kw = Inr (Some res)"
  shows "projection res = projection l"
proof -
  from assms(1) have m: "(kw_mode kw = ''intersects'' \<or> kw_mode kw = ''centroid'') = True" by simp
  show ?thesis
  proof (cases "features l")
    case None
    with assms(2) m show ?thesis by (simp add: process_def getkey_def)
  next
    case (Some lf)
    note lf = this
    show ?thesis
    proof (cases "features r")
      case None
      with assms(2) m lf show ?thesis by (simp add: process_def getkey_def)
    next
      case (Some rf)
      with assms(2) m lf show ?thesis
        by (cases "pd_merge E lf rf (kw_how kw) (kw_suffixes kw)")
           (auto simp: process_def getkey_def)
    qed
  qed
qed

lemma extent_branch:
  assumes "kw_mode kw = ''extent''"
  shows "process E l r kw =
           (if kw_how kw = ''left'' then Inr (Some l)
            else if kw_how kw = ''right'' then Inr (Some r)
            else if kw_how kw = ''inner'' then extent_inner E l r
            else if kw_how kw = ''outer'' then extent_outer E l r
            else Inr None)"
  using assms by (simp add: process_def)

lemma process_extent_returns:
  assumes "kw_mode kw = ''extent''" and "kw_how kw \<in> set allow_how_joins"
    and "extent l = Some el" and "extent r = Some er"
  shows "\<exists>res. process E l r kw = Inr (Some res)"
proof -
  have i: "\<exists>res. extent_inner E l r = Inr (Some res)"
    using assms(3,4) by (cases el; cases er) (simp_all add: extent_inner_def getkey_def Let_def)
  have o: "\<exists>res. extent_outer E l r = Inr (Some res)"
    using assms(3,4) by (cases el; cases er) (simp_all add: extent_outer_def getkey_def Let_def)
  from assms(2) consider "kw_how kw = ''left''" | "kw_how kw = ''right''"
    | "kw_how kw = ''outer''" | "kw_how kw = ''inner''"
    by (auto simp: allow_how_joins_def)
  then show ?thesis using assms(1) i o by cases (simp_all add: extent_branch)
qed

text \<open>
  C1: the projection of a combined response. \<^verbatim>\<open>process\<close> copies the projection of the
  left response into every response it builds, and in the extent mode it hands back the
  left response itself for the join kind \<^verbatim>\<open>left\<close>. For the join kind \<^verbatim>\<open>right\<close> in
  the extent mode it hands back the right response as it is, so there the projection is
  the one of the right response. The statement holds for every table and geometry engine.
\<close>

theorem process_projection:
  assumes "process E l r kw = Inr (Some res)"
  shows "projection res =
           (if kw_mode kw = ''extent'' \<and> kw_how kw = ''right'' then projection r else projection l)"
proof (cases "kw_mode kw = ''extent''")
  case True
  with assms have
    "(if kw_how kw = ''left'' then Inr (Some l)
      else if kw_how kw = ''right'' then Inr (Some r)
      else if kw_how kw = ''inner'' then extent_inner E l r
      else if kw_how kw = ''outer'' then extent_outer E l r
      else Inr None) = Inr (Some res)"
    by (simp only: extent_branch)
  with True show ?thesis
    by (auto split: if_splits dest: extent_inner_projection extent_outer_projection)
next
  case False
  show ?thesis
  proof (cases "kw_mode kw = ''intersects'' \<or> kw_mode kw = ''centroid''")
    case True
    with assms False show ?thesis by (simp add: features_branch_projection)
  next
    case False
    with \<open>kw_mode kw \<noteq> ''extent''\<close> have "process E l r kw = Inr None"
      by (simp add: process_def)
    with assms show ?thesis by simp
  qed
qed

theorem process_projection_witness:
  "process (libraries :: ((int, int) dataframe, geometry) engine)
     \<lparr>features = None, extent = Some (Some (0, 0, 1, 1)), projection = ''EPSG:28992''\<rparr>
     \<lparr>features = None, extent = Some None, projection = ''EPSG:4326''\<rparr>
     \<lparr>kw_how = ''outer'', kw_suffixes = [PStr [], PStr ''_right''], kw_mode = ''extent''\<rparr>
   = Inr (Some \<lparr>features = None, extent = Some (Some (0, 0, 1, 1)), projection = ''EPSG:28992''\<rparr>)
   \<and> projection \<lparr>features = None :: (int, int) dataframe option, extent = Some (Some (0, 0, 1, 1)),
                   projection = ''EPSG:28992''\<rparr> = ''EPSG:28992''"
proof -
  let ?E = "libraries :: ((int, int) dataframe, geometry) engine"
  let ?l = "\<lparr>features = None :: (int, int) dataframe option, extent = Some (Some (0, 0, 1, 1)), projection = ''EPSG:28992''\<rparr>"
  let ?r = "\<lparr>features = None :: (int, int) dataframe option, extent = Some None, projection = ''EPSG:4326''\<rparr>"
  let ?kw = "\<lparr>kw_how = ''outer'', kw_suffixes = [PStr [], PStr ''_right''], kw_mode = ''extent''\<rparr>"
  have p: "process ?E ?l ?r ?kw = Inr (Some ?l)"
    by (simp add: process_def extent_outer_def getkey_def)
  from process_projection [OF p] p show ?thesis by simp
qed

text \<open>
  The claim as it is worded fails in the extent mode with the join kind \<^verbatim>\<open>right\<close>: the
  two responses carry different projections, and the result carries the right one.
\<close>

theorem process_extent_right_counterexample:
  "process (libraries :: ((int, int) dataframe, geometry) engine)
     \<lparr>features = None, extent = Some (Some (0, 0, 1, 1)), projection = ''EPSG:28992''\<rparr>
     \<lparr>features = None, extent = Some (Some (5, 5, 6, 6)), projection = ''EPSG:4326''\<rparr>
     \<lparr>kw_how = ''right'', kw_suffixes = [PStr [], PStr ''_right''], kw_mode = ''extent''\<rparr>
   = Inr (Some \<lparr>features = None, extent = Some (Some (5, 5, 6, 6)), projection = ''EPSG:4326''\<rparr>)
   \<and> ''EPSG:4326'' \<noteq> ''EPSG:28992''"
  by (simp add: process_def)

text \<open>
  C10: for a mode other than \<^verbatim>\<open>intersects\<close>, \<^verbatim>\<open>centroid\<close> and \<^verbatim>\<open>extent\<close> no branch
  is taken and \<^verbatim>\<open>process\<close> returns \<^verbatim>\<open>None\<close>, whatever the responses, the join kind
  and the engines are.
\<close>

theorem process_unknown_mode:
  assumes "kw_mode kw \<notin> {''intersects'', ''centroid'', ''extent''}"
  shows "process E l r kw = Inr None"
  using assms by (simp add: process_def)

theorem process_unknown_mode_witness:
  "''bogus'' \<notin> {''intersects'', ''centroid'', ''extent''} \<and>
   process (libraries :: ((int, int) dataframe, geometry) engine)
     \<lparr>features = None, extent = Some (Some (0, 0, 1, 1)), projection = ''EPSG:28992''\<rparr>
     \<lparr>features = None, extent = Some (Some (5, 5, 6, 6)), projection = ''EPSG:28992''\<rparr>
     \<lparr>kw_how = ''inner'', kw_suffixes = [PStr [], PStr ''_right''], kw_mode = ''bogus''\<rparr>
   = Inr None"
proof -
  let ?kw = "\<lparr>kw_how = ''inner'', kw_suffixes = [PStr [], PStr ''_right''], kw_mode = ''bogus''\<rparr>"
  have m: "kw_mode ?kw \<notin> {''intersects'', ''centroid'', ''extent''}" by simp
  from process_unknown_mode [OF m] show ?thesis by simp
qed

text \<open>
  C5: in the extent mode, when the extent of at least one side is \<^verbatim>\<open>None\<close>, the join
  kind \<^verbatim>\<open>inner\<close> gives the extent \<^verbatim>\<open>None\<close>, and the join kind \<^verbatim>\<open>outer\<close> gives the
  extent of the other side as it is (which is \<^verbatim>\<open>None\<close> when both are). The result is
  the same for every geometry engine \<open>E\<close>: none of its operations has a part in it.
\<close>

theorem extent_absent:
  assumes "kw_mode kw = ''extent''"
    and "extent l = Some el" and "extent r = Some er"
    and "el = None \<or> er = None"
  shows "(kw_how kw = ''inner'' \<longrightarrow>
            process E l r kw =
              Inr (Some \<lparr>features = None, extent = Some None, projection = projection l\<rparr>)) \<and>
         (kw_how kw = ''outer'' \<longrightarrow>
            process E l r kw =
              Inr (Some \<lparr>features = None, extent = Some (if el = None then er else el),
                         projection = projection l\<rparr>))"
proof -
  have i: "extent_inner E l r =
             Inr (Some \<lparr>features = None, extent = Some None, projection = projection l\<rparr>)"
    using assms(2-4) by (cases el; cases er) (simp_all add: extent_inner_def getkey_def)
  have o: "extent_outer E l r =
             Inr (Some \<lparr>features = None, extent = Some (if el = None then er else el),
                        projection = projection l\<rparr>)"
    using assms(2-4) by (cases el; cases er) (simp_all add: extent_outer_def getkey_def)
  show ?thesis using assms(1) i o by (simp add: extent_branch)
qed

theorem extent_absent_witness:
  "process (libraries :: ((int, int) dataframe, geometry) engine)
     \<lparr>features = None, extent = Some None, projection = ''EPSG:28992''\<rparr>
     \<lparr>features = None, extent = Some (Some (5, 5, 6, 6)), projection = ''EPSG:28992''\<rparr>
     \<lparr>kw_how = ''inner'', kw_suffixes = [PStr [], PStr ''_right''], kw_mode = ''extent''\<rparr>
   = Inr (Some \<lparr>features = None, extent = Some None, projection = ''EPSG:28992''\<rparr>) \<and>
   process (libraries :: ((int, int) dataframe, geometry) engine)
     \<lparr>features = None, extent = Some None, projection = ''EPSG:28992''\<rparr>
     \<lparr>features = None, extent = Some (Some (5, 5, 6, 6)), projection = ''EPSG:28992''\<rparr>
     \<lparr>kw_how = ''outer'', kw_suffixes = [PStr [], PStr ''_right''], kw_mode = ''extent''\<rparr>
   = Inr (Some \<lparr>features = None, extent = Some (Some (5, 5, 6, 6)), projection = ''EPSG:28992''\<rparr>)"
proof -
  let ?E = "libraries :: ((int, int) dataframe, geometry) engine"
  let ?l = "\<lparr>features = None :: (int, int) dataframe option, extent = Some None, projection = ''EPSG:28992''\<rparr>"
  let ?r = "\<lparr>features = None :: (int, int) dataframe option, extent = Some (Some (5, 5, 6, 6)), projection = ''EPSG:28992''\<rparr>"
  let ?ki = "\<lparr>kw_how = ''inner'', kw_suffixes = [PStr [], PStr ''_right''], kw_mode = ''extent''\<rparr>"
  let ?ko = "\<lparr>kw_how = ''outer'', kw_suffixes = [PStr [], PStr ''_right''], kw_mode = ''extent''\<rparr>"
  have mi: "kw_mode ?ki = ''extent''" and mo: "kw_mode ?ko = ''extent''" by simp_all
  have el: "extent ?l = Some None" and er: "extent ?r = Some (Some (5, 5, 6, 6))" by simp_all
  have ab: "(None :: bbox option) = None \<or> Some (5, 5, 6, 6) = (None :: bbox option)" by simp
  from extent_absent [OF mi el er ab, of ?E] extent_absent [OF mo el er ab, of ?E]
  show ?thesis by simp
qed

subsection \<open>The geometry engine computes with point sets\<close>

lemma rect_points_inter: "rect_points (rect_inter a b) = rect_points a \<inter> rect_points b"
  by (cases a; cases b) auto

lemma rect_points_empty_iff: "rect_points b = {} \<longleftrightarrow> \<not> rect_nonempty b"
proof (cases b)
  case (fields x0 y0 x1 y1)
  show ?thesis
  proof
    assume e: "rect_points b = {}"
    show "\<not> rect_nonempty b"
    proof
      assume "rect_nonempty b"
      then have "(x0, y0) \<in> rect_points b" using fields by simp
      with e show False by simp
    qed
  next
    assume "\<not> rect_nonempty b"
    then show "rect_points b = {}" using fields by auto
  qed
qed

lemma rect_nonempty_iff:
  "rect_nonempty (rect_inter a b) \<longleftrightarrow> rect_points a \<inter> rect_points b \<noteq> {}"
  using rect_points_empty_iff [of "rect_inter a b"] by (simp add: rect_points_inter)

lemma proper_nonempty: "proper_box b \<Longrightarrow> rect_nonempty b"
  by (cases b) simp


lemma takes_part_as_piece: "rect_nonempty b \<Longrightarrow> takes_part (as_piece b)"
  by (simp add: as_piece_def)

lemma piece_box_as_piece: "piece_box (as_piece b) = b"
  by (simp add: as_piece_def)

lemma piece_points_inter:
  "(\<Union>x \<in> set (piece_inter p q). piece_points x) = piece_points p \<inter> piece_points q"
proof (cases "takes_part p \<and> takes_part q")
  case True
  show ?thesis
  proof (cases "rect_nonempty (rect_inter (piece_box p) (piece_box q))")
    case ne: True
    with True show ?thesis
      by (simp add: piece_inter_def piece_points_def takes_part_as_piece piece_box_as_piece
            rect_points_inter)
  next
    case False
    then have "rect_points (piece_box p) \<inter> rect_points (piece_box q) = {}"
      by (simp add: rect_nonempty_iff)
    with True False show ?thesis by (simp add: piece_inter_def piece_points_def)
  qed
next
  case False
  then show ?thesis by (auto simp: piece_inter_def piece_points_def)
qed

lemma points_intersection: "points (intersection g h) = points g \<inter> points h"
proof -
  have "points (intersection g h) =
          (\<Union>p \<in> set g. \<Union>q \<in> set h. \<Union>x \<in> set (piece_inter p q). piece_points x)"
    by (simp add: points_def intersection_def)
  also have "\<dots> = (\<Union>p \<in> set g. \<Union>q \<in> set h. piece_points p \<inter> piece_points q)"
    by (simp only: piece_points_inter)
  also have "\<dots> = points g \<inter> points h" by (auto simp: points_def)
  finally show ?thesis .
qed

lemma points_union_geom: "points (union_geom g h) = points g \<union> points h"
  by (auto simp: points_def union_geom_def piece_points_def)

lemma piece_inter_empty_iff:
  "piece_inter p q = [] \<longleftrightarrow> piece_points p \<inter> piece_points q = {}"
  by (auto simp: piece_inter_def piece_points_def rect_nonempty_iff Let_def)

lemma is_empty_intersection:
  "is_empty (intersection g h) \<longleftrightarrow> points g \<inter> points h = {}"
  by (auto simp: is_empty_def intersection_def points_def piece_inter_empty_iff)

lemma points_box:
  "points (box b) = (if proper_box (normalize b) then rect_points (normalize b) else {})"
  by (simp add: points_def box_def piece_points_def)

lemma box_not_empty: "\<not> is_empty (box b)" and bounds_box: "bounds (box b) = Some (normalize b)"
  by (simp_all add: is_empty_def box_def bounds_def)

lemma libraries_simps:
  "pd_merge libraries = merge_by_index"
  "shp_box libraries = box"
  "shp_intersection libraries = intersection"
  "shp_union libraries = union_geom"
  "shp_is_empty libraries = is_empty"
  "shp_bounds libraries = bounds"
  by (simp_all add: libraries_def)








subsection \<open>Intersecting two extents\<close>







subsection \<open>Merging two feature tables\<close>

lemma fst_join_rows:
  "fst ` set (join_rows k ls rs) = (if ls = [] \<or> rs = [] then {} else {k})"
  by (cases ls; cases rs) (auto simp: join_rows_def image_Un image_UN image_image)

lemma or_nulls_nonempty: "or_nulls n ms \<noteq> []"
  by (simp add: or_nulls_def)

lemma matches_empty_iff: "matches rows k = [] \<longleftrightarrow> k \<notin> fst ` set rows"
  by (auto simp: matches_def filter_empty_conv image_iff)

lemma index_left_join: "fst ` set (left_join lt rt) = index_set lt"
proof -
  have "fst ` set (left_join lt rt) =
          (\<Union>row \<in> set (df_rows lt).
             fst ` set (join_rows (fst row) [snd row]
               (or_nulls (length (df_columns rt)) (matches (df_rows rt) (fst row)))))"
    by (simp add: left_join_def image_UN case_prod_unfold)
  also have "\<dots> = (\<Union>row \<in> set (df_rows lt). {fst row})"
    by (simp add: fst_join_rows or_nulls_nonempty)
  also have "\<dots> = index_set lt" by (auto simp: index_set_def)
  finally show ?thesis .
qed

lemma index_right_join: "fst ` set (right_join lt rt) = index_set rt"
proof -
  have "fst ` set (right_join lt rt) =
          (\<Union>row \<in> set (df_rows rt).
             fst ` set (join_rows (fst row)
               (or_nulls (length (df_columns lt)) (matches (df_rows lt) (fst row))) [snd row]))"
    by (simp add: right_join_def image_UN case_prod_unfold)
  also have "\<dots> = (\<Union>row \<in> set (df_rows rt). {fst row})"
    by (simp add: fst_join_rows or_nulls_nonempty)
  also have "\<dots> = index_set rt" by (auto simp: index_set_def)
  finally show ?thesis .
qed

lemma index_inner_join: "fst ` set (inner_join lt rt) = index_set lt \<inter> index_set rt"
proof -
  have "fst ` set (inner_join lt rt) =
          (\<Union>row \<in> set (df_rows lt).
             fst ` set (join_rows (fst row) [snd row] (matches (df_rows rt) (fst row))))"
    by (simp add: inner_join_def image_UN case_prod_unfold)
  also have "\<dots> = (\<Union>row \<in> set (df_rows lt). if fst row \<in> fst ` set (df_rows rt) then {fst row} else {})"
    by (simp add: fst_join_rows matches_empty_iff)
  also have "\<dots> = index_set lt \<inter> index_set rt" by (auto simp: index_set_def split: if_splits)
  finally show ?thesis .
qed

lemma index_outer_join: "fst ` set (outer_join lt rt) = index_set lt \<union> index_set rt"
proof -
  have "fst ` set (outer_join lt rt) =
          (\<Union>k \<in> fst ` set (df_rows lt) \<union> fst ` set (df_rows rt).
             fst ` set (join_rows k
               (or_nulls (length (df_columns lt)) (matches (df_rows lt) k))
               (or_nulls (length (df_columns rt)) (matches (df_rows rt) k))))"
    by (simp add: outer_join_def image_UN image_Un)
  also have "\<dots> = (\<Union>k \<in> fst ` set (df_rows lt) \<union> fst ` set (df_rows rt). {k})"
    by (simp add: fst_join_rows or_nulls_nonempty)
  also have "\<dots> = index_set lt \<union> index_set rt" by (auto simp: index_set_def)
  finally show ?thesis .
qed

lemma merge_by_index_ok:
  assumes "h \<in> set allow_how_joins"
    and "set (df_columns lt) \<inter> set (df_columns rt) = {} \<or> s0 \<noteq> [] \<or> s1 \<noteq> []"
  shows "\<exists>t. merge_by_index lt rt h [PStr s0, PStr s1] = Inr t \<and>
             index_set t = spec_index_set h (index_set lt) (index_set rt)"
proof -
  have ov: "\<not> (filter (\<lambda>c. c \<in> set (df_columns rt)) (df_columns lt) \<noteq> [] \<and> s0 = [] \<and> s1 = [])"
    using assms(2) by (auto simp: filter_empty_conv)
  from assms(1) consider "h = ''left''" | "h = ''right''" | "h = ''outer''" | "h = ''inner''"
    by (auto simp: allow_how_joins_def)
  then show ?thesis
  proof cases
    case 1
    with ov show ?thesis
      by (simp add: merge_by_index_def Let_def spec_index_set_def index_set_def index_left_join [unfolded index_set_def])
  next
    case 2
    with ov show ?thesis
      by (simp add: merge_by_index_def Let_def spec_index_set_def index_set_def index_right_join [unfolded index_set_def])
  next
    case 3
    with ov show ?thesis
      by (simp add: merge_by_index_def Let_def spec_index_set_def index_set_def index_outer_join [unfolded index_set_def])
  next
    case 4
    with ov show ?thesis
      by (simp add: merge_by_index_def Let_def spec_index_set_def index_set_def index_inner_join [unfolded index_set_def])
  qed
qed

text \<open>
  C3: in the modes \<^verbatim>\<open>intersects\<close> and \<^verbatim>\<open>centroid\<close>, for two feature tables whose
  column names the table engine accepts (no shared name, or a suffix that is not
  empty), \<^verbatim>\<open>process\<close> returns a features table whose index set is that of the left
  table for \<^verbatim>\<open>left\<close>, that of the right table for \<^verbatim>\<open>right\<close>, the intersection of
  the two for \<^verbatim>\<open>inner\<close> and their union for \<^verbatim>\<open>outer\<close>. It holds for empty tables
  and for repeated index values as well.
\<close>

theorem process_index_set:
  assumes "kw_mode kw = ''intersects'' \<or> kw_mode kw = ''centroid''"
    and "kw_how kw \<in> set allow_how_joins"
    and "features l = Some lt" and "features r = Some rt"
    and "kw_suffixes kw = [PStr s0, PStr s1]"
    and "set (df_columns lt) \<inter> set (df_columns rt) = {} \<or> s0 \<noteq> [] \<or> s1 \<noteq> []"
  shows "\<exists>t. process libraries l r kw =
               Inr (Some \<lparr>features = Some t, extent = None, projection = projection l\<rparr>) \<and>
             index_set t = spec_index_set (kw_how kw) (index_set lt) (index_set rt)"
proof -
  from merge_by_index_ok [OF assms(2) assms(6)] obtain t where
    t: "merge_by_index lt rt (kw_how kw) [PStr s0, PStr s1] = Inr t"
       "index_set t = spec_index_set (kw_how kw) (index_set lt) (index_set rt)"
    by blast
  from assms(1) have m: "(kw_mode kw = ''intersects'' \<or> kw_mode kw = ''centroid'') = True" by simp
  have "process libraries l r kw =
          Inr (Some \<lparr>features = Some t, extent = None, projection = projection l\<rparr>)"
    using m assms(3-5) t(1) by (simp add: process_def getkey_def libraries_simps)
  with t(2) show ?thesis by blast
qed

theorem process_index_set_witness:
  "(\<exists>t. process libraries
          \<lparr>features = Some \<lparr>df_columns = [''a''], df_rows = [(1::int, [Some (10::int)]), (2, [Some 20])]\<rparr>,
           extent = None, projection = ''EPSG:28992''\<rparr>
          \<lparr>features = Some \<lparr>df_columns = [''a''], df_rows = [(2, [Some 21]), (3, [Some 31])]\<rparr>,
           extent = None, projection = ''EPSG:28992''\<rparr>
          \<lparr>kw_how = ''outer'', kw_suffixes = [PStr [], PStr ''_right''], kw_mode = ''intersects''\<rparr>
        = Inr (Some \<lparr>features = Some t, extent = None, projection = ''EPSG:28992''\<rparr>) \<and>
        index_set t = {1, 2, 3})"
proof -
  let ?lt = "\<lparr>df_columns = [''a''], df_rows = [(1::int, [Some (10::int)]), (2, [Some 20])]\<rparr>"
  let ?rt = "\<lparr>df_columns = [''a''], df_rows = [(2::int, [Some (21::int)]), (3, [Some 31])]\<rparr>"
  let ?l = "\<lparr>features = Some ?lt, extent = None, projection = ''EPSG:28992''\<rparr>"
  let ?r = "\<lparr>features = Some ?rt, extent = None, projection = ''EPSG:28992''\<rparr>"
  let ?kw = "\<lparr>kw_how = ''outer'', kw_suffixes = [PStr [], PStr ''_right''], kw_mode = ''intersects''\<rparr>"
  have 1: "kw_mode ?kw = ''intersects'' \<or> kw_mode ?kw = ''centroid''" by simp
  have 2: "kw_how ?kw \<in> set allow_how_joins" by (simp add: allow_how_joins_def)
  have 3: "features ?l = Some ?lt" by simp
  have 4: "features ?r = Some ?rt" by simp
  have 5: "kw_suffixes ?kw = [PStr [], PStr ''_right'']" by simp
  have 6: "set (df_columns ?lt) \<inter> set (df_columns ?rt) = {} \<or> ([]::string) \<noteq> [] \<or> ''_right'' \<noteq> []"
    by simp
  have s: "spec_index_set (kw_how ?kw) (index_set ?lt) (index_set ?rt) = {1, 2, 3}"
    by (auto simp: spec_index_set_def index_set_def)
  from process_index_set [OF 1 2 3 4 5 6] s show ?thesis by simp
qed

end
